theory Spec2Isabelle
  imports Main "HOL-Library.Sublist" "HOL-Library.Char_ord" "HOL-Library.List_Lexorder"
    "HOL-Library.Multiset"
begin

section \<open>Python values and built-ins used by the program\<close>

text \<open>
  The model follows \<^verbatim>\<open>keep_active.py\<close>, function by function.
  (\<^verbatim>\<open>keep_github_workflows_active.py\<close> is an older copy of the same functions: it
  has no rule for Dependabot workflows, no fallback for an error body that is not JSON,
  no request timeout, and reads the credentials from a Python file.) Printing and
  logging are left out: they neither change the control flow nor touch the network.
  Everything else the functions do is explicit: a raised exception is a value
  \<open>Inl e\<close>, every HTTP request that is attempted is appended to a request log, and the
  remote side is a function from the requests seen so far and the current request to
  what \<^verbatim>\<open>requests\<close> hands back.
\<close>

text \<open>
  A decoded JSON document, as \<^verbatim>\<open>response.json()\<close> returns it. A \<^verbatim>\<open>dict\<close> is an
  association list read with \<open>map_of\<close>; numbers are Python \<^verbatim>\<open>int\<close>s.
\<close>

datatype json =
    JNull
  | JBool bool
  | JInt int
  | JStr string
  | JArr "json list"
  | JObj "(string \<times> json) list"

text \<open>
  The exceptions that can leave the functions. \<open>RequestException\<close> stands for the
  transport failures of \<^verbatim>\<open>requests\<close> (connection errors, timeouts) with their
  \<^verbatim>\<open>str()\<close>; \<open>JSONDecodeError\<close> is the \<^verbatim>\<open>ValueError\<close> raised by
  \<^verbatim>\<open>response.json()\<close> on a body that is not JSON.
\<close>

datatype error =
    RuntimeError string
  | RequestException string
  | JSONDecodeError
  | KeyError string
  | TypeError
  | AttributeError
  | FileNotFoundError string

text \<open>Decimal rendering of a Python \<^verbatim>\<open>int\<close>.\<close>

fun str_nat :: "nat \<Rightarrow> string" where
  "str_nat n = (if n < 10 then [''0123456789'' ! n]
                else str_nat (n div 10) @ [''0123456789'' ! (n mod 10)])"

declare str_nat.simps [simp del]

definition str_int :: "int \<Rightarrow> string" where
  "str_int i = (if i < 0 then CHR ''-'' # str_nat (nat (- i)) else str_nat (nat i))"

text \<open>
  \<^verbatim>\<open>str(v)\<close>, as an f-string applies it to an interpolated value. The rendering of
  lists and dicts (Python's \<^verbatim>\<open>repr\<close> of their elements) is left unspecified: no
  property below depends on it.
\<close>

definition py_str :: "json \<Rightarrow> string" where
  "py_str v =
     (case v of
        JStr s \<Rightarrow> s
      | JInt i \<Rightarrow> str_int i
      | JBool b \<Rightarrow> (if b then ''True'' else ''False'')
      | JNull \<Rightarrow> ''None''
      | _ \<Rightarrow> undefined v)"

text \<open>\<^verbatim>\<open>for x in v\<close>: a list yields its elements, a dict its keys, a string its
  characters; anything else is not iterable.\<close>

definition py_iter :: "json \<Rightarrow> error + json list" where
  "py_iter v =
     (case v of
        JArr xs \<Rightarrow> Inr xs
      | JObj kvs \<Rightarrow> Inr (map (\<lambda>k. JStr k) (remdups (map fst kvs)))
      | JStr s \<Rightarrow> Inr (map (\<lambda>c. JStr [c]) s)
      | _ \<Rightarrow> Inl TypeError)"

text \<open>\<^verbatim>\<open>v[key]\<close> with a string key: only a dict can be subscripted by a string.\<close>

definition py_getitem :: "json \<Rightarrow> string \<Rightarrow> error + json" where
  "py_getitem v k =
     (case v of
        JObj kvs \<Rightarrow> (case map_of kvs k of Some x \<Rightarrow> Inr x | None \<Rightarrow> Inl (KeyError k))
      | _ \<Rightarrow> Inl TypeError)"

text \<open>\<^verbatim>\<open>v.get(key, default)\<close>: only a dict has the method.\<close>

definition py_get :: "json \<Rightarrow> string \<Rightarrow> json \<Rightarrow> error + json" where
  "py_get v k d =
     (case v of
        JObj kvs \<Rightarrow> (case map_of kvs k of Some x \<Rightarrow> Inr x | None \<Rightarrow> Inr d)
      | _ \<Rightarrow> Inl AttributeError)"

text \<open>A list comprehension \<^verbatim>\<open>[f(x) for x in xs]\<close>: the first exception ends it.\<close>

fun comprehension :: "('a \<Rightarrow> error + 'b) \<Rightarrow> 'a list \<Rightarrow> error + 'b list" where
  "comprehension f [] = Inr []"
| "comprehension f (x # xs) =
     (case f x of
        Inl e \<Rightarrow> Inl e
      | Inr y \<Rightarrow> (case comprehension f xs of Inl e \<Rightarrow> Inl e | Inr ys \<Rightarrow> Inr (y # ys)))"

text \<open>\<^verbatim>\<open>s.startswith(p)\<close>.\<close>

definition startswith :: "string \<Rightarrow> string \<Rightarrow> bool" where
  "startswith s p = prefix p s"

text \<open>Truthiness of an optional string: \<^verbatim>\<open>None\<close> and \<^verbatim>\<open>""\<close> are false.\<close>

definition truthy :: "string option \<Rightarrow> bool" where
  "truthy v = (case v of None \<Rightarrow> False | Some s \<Rightarrow> s \<noteq> [])"

text \<open>
  \<^verbatim>\<open>xs[k:]\<close>: a negative start counts from the end of the list and is clamped at
  its beginning.
\<close>

definition py_slice_from :: "int \<Rightarrow> 'a list \<Rightarrow> 'a list" where
  "py_slice_from k xs =
     (if 0 \<le> k then drop (nat k) xs else drop (nat (int (length xs) + k)) xs)"

text \<open>
  \<^verbatim>\<open>sorted(vs, reverse=True)\<close> on decoded values. Numbers (\<^verbatim>\<open>bool\<close> is a subclass of
  \<^verbatim>\<open>int\<close>) are ordered by value and strings by their characters; the sort is stable
  also when reversed. A list of at most one element is never compared. \<^verbatim>\<open>None\<close>,
  dicts and values of different kinds cannot be compared: \<^verbatim>\<open>TypeError\<close>. Only for
  two or more lists, whose comparison depends on the pairs the sorting algorithm
  happens to compare, the result is left unspecified.
\<close>

fun is_number :: "json \<Rightarrow> bool" where
  "is_number (JInt i) = True"
| "is_number (JBool b) = True"
| "is_number v = False"

fun number_of :: "json \<Rightarrow> int" where
  "number_of (JInt i) = i"
| "number_of (JBool b) = (if b then 1 else 0)"
| "number_of v = 0"

fun is_str :: "json \<Rightarrow> bool" where
  "is_str (JStr s) = True"
| "is_str v = False"

fun is_array :: "json \<Rightarrow> bool" where
  "is_array (JArr xs) = True"
| "is_array v = False"

definition py_sorted_reverse :: "json list \<Rightarrow> error + json list" where
  "py_sorted_reverse vs =
     (if length vs \<le> 1 then Inr vs
      else if list_all is_number vs then Inr (sort_key (\<lambda>v. - number_of v) vs)
      else if list_all is_str vs then Inr (rev (sort_key py_str vs))
      else if list_all is_array vs then undefined vs
      else Inl TypeError)"

text \<open>
  \<^verbatim>\<open>pathlib.Path(p).name\<close> on a POSIX path: the last component, where empty
  components and \<^verbatim>\<open>.\<close> are dropped; the empty string when nothing is left.
\<close>

fun split_char :: "char \<Rightarrow> string \<Rightarrow> string list" where
  "split_char c [] = [[]]"
| "split_char c (x # xs) =
     (if x = c then [] # split_char c xs
      else (case split_char c xs of [] \<Rightarrow> [[x]] | p # ps \<Rightarrow> (x # p) # ps))"

definition path_name :: "string \<Rightarrow> string" where
  "path_name p =
     (case rev (filter (\<lambda>c. c \<noteq> [] \<and> c \<noteq> ''.'') (split_char CHR ''/'' p)) of
        [] \<Rightarrow> []
      | c # cs \<Rightarrow> c)"

section \<open>The HTTP transport\<close>

datatype http_method = GET | PUT | DELETE

record request =
  meth :: http_method
  url :: string
  headers :: "(string \<times> string) list"
  timeout :: nat

text \<open>
  What the program reads of a \<^verbatim>\<open>requests.Response\<close>: \<open>json_body\<close> is the result of
  \<^verbatim>\<open>response.json()\<close> (\<open>None\<close> when the body is not JSON, where the call raises),
  \<open>body_text\<close> is \<^verbatim>\<open>response.text\<close>, and \<open>next_url\<close> is
  \<^verbatim>\<open>response.links.get("next", {}).get("url", None)\<close>.
\<close>

record response =
  status_code :: int
  reason :: string
  body_text :: string
  json_body :: "json option"
  next_url :: "string option"

text \<open>
  A call of \<^verbatim>\<open>requests.get\<close>, \<^verbatim>\<open>requests.put\<close> or \<^verbatim>\<open>requests.delete\<close> either
  raises a transport exception (\<open>Failed\<close>, with its \<^verbatim>\<open>str()\<close>) or returns a response
  with any status. The remote side may answer the same request differently over time,
  so it is a function of the requests made before.
\<close>

datatype reply = Failed string | Replied response

type_synonym network = "request list \<Rightarrow> request \<Rightarrow> reply"

definition send :: "network \<Rightarrow> request list \<Rightarrow> request \<Rightarrow> reply \<times> request list" where
  "send net log r = (net log r, log @ [r])"

definition REQUEST_TIMEOUT_SECONDS :: nat where
  "REQUEST_TIMEOUT_SECONDS = 30"

text \<open>
  \<^verbatim>\<open>response.raise_for_status()\<close> raises \<^verbatim>\<open>HTTPError\<close> exactly for the client and
  server error statuses; the exception carries the response itself.
\<close>

definition raise_for_status :: "response \<Rightarrow> bool" where
  "raise_for_status r = (400 \<le> status_code r \<and> status_code r < 600)"

section \<open>The paginated listings\<close>

text \<open>
  \<^verbatim>\<open>get_repositories\<close>, \<^verbatim>\<open>get_workflows\<close> and \<^verbatim>\<open>get_workflow_runs\<close> run the same
  \<^verbatim>\<open>while url:\<close> loop; they differ in the first URL, in how the items are taken from
  a page and in the text of the error. \<open>paginated_get\<close> is that loop, with these three
  as arguments. The handler of \<^verbatim>\<open>HTTPError\<close> reads the message of the error body:
  decoding the body and calling \<^verbatim>\<open>.get\<close> on it can raise in their turn.
\<close>

definition listing_error :: "string \<Rightarrow> response \<Rightarrow> error" where
  "listing_error what response =
     (case json_body response of
        None \<Rightarrow> JSONDecodeError
      | Some body \<Rightarrow>
          (case py_get body ''message'' (JStr ''Error'') of
             Inl e \<Rightarrow> e
           | Inr error_message \<Rightarrow> RuntimeError (what @ py_str error_message)))"

definition get_request :: "string \<Rightarrow> (string \<times> string) list \<Rightarrow> request" where
  "get_request u hs = \<lparr>meth = GET, url = u, headers = hs, timeout = REQUEST_TIMEOUT_SECONDS\<rparr>"

text \<open>
  The loop need not end: a server can hand out next links forever. The result is
  \<open>None\<close> exactly then.
\<close>

partial_function (option) paginated_get ::
  "network \<Rightarrow> (string \<times> string) list \<Rightarrow> (json \<Rightarrow> error + 'a list) \<Rightarrow> string \<Rightarrow>
   string option \<Rightarrow> 'a list \<Rightarrow> request list \<Rightarrow> ((error + 'a list) \<times> request list) option"
where
  "paginated_get net hs items_of what link items log =
     (case link of
        None \<Rightarrow> Some (Inr items, log)
      | Some u \<Rightarrow>
          if u = [] then Some (Inr items, log)
          else
            (case send net log (get_request u hs) of
               (Failed exc, log') \<Rightarrow> Some (Inl (RequestException exc), log')
             | (Replied response, log') \<Rightarrow>
                 if raise_for_status response
                 then Some (Inl (listing_error what response), log')
                 else
                   (case json_body response of
                      None \<Rightarrow> Some (Inl JSONDecodeError, log')
                    | Some data \<Rightarrow>
                        (case items_of data of
                           Inl e \<Rightarrow> Some (Inl e, log')
                         | Inr new \<Rightarrow>
                             paginated_get net hs items_of what (next_url response)
                               (items @ new) log'))))"

declare paginated_get.simps [code]

definition bearer_headers :: "string \<Rightarrow> (string \<times> string) list" where
  "bearer_headers github_token =
     [(''Authorization'', ''Bearer '' @ github_token),
      (''Accept'', ''application/vnd.github.v3+json'')]"

text \<open>
  A repository name is only ever interpolated into f-strings, so the listing keeps its
  \<^verbatim>\<open>str()\<close>.
\<close>

definition repository_names :: "json \<Rightarrow> error + string list" where
  "repository_names data =
     (case py_iter data of
        Inl e \<Rightarrow> Inl e
      | Inr repos \<Rightarrow>
          comprehension
            (\<lambda>repo. case py_getitem repo ''name'' of Inl e \<Rightarrow> Inl e | Inr n \<Rightarrow> Inr (py_str n))
            repos)"

definition repositories_url :: "string \<Rightarrow> string" where
  "repositories_url owner = ''https://api.github.com/users/'' @ owner @ ''/repos?per_page=100''"

definition repositories_error :: "string \<Rightarrow> string" where
  "repositories_error owner = ''ERROR reading repositories for user '' @ owner @ '': ''"

definition get_repositories ::
  "network \<Rightarrow> request list \<Rightarrow> string \<Rightarrow> string \<Rightarrow> ((error + string list) \<times> request list) option"
where
  "get_repositories net log owner github_token =
     paginated_get net (bearer_headers github_token) repository_names
       (repositories_error owner) (Some (repositories_url owner)) [] log"

text \<open>\<^verbatim>\<open>pathlib.Path(workflow["path"]).name\<close>: a path that is not a string is refused.\<close>

definition workflow_filenames :: "json \<Rightarrow> error + string list" where
  "workflow_filenames data =
     (case py_get data ''workflows'' (JArr []) of
        Inl e \<Rightarrow> Inl e
      | Inr ws \<Rightarrow>
          (case py_iter ws of
             Inl e \<Rightarrow> Inl e
           | Inr workflows \<Rightarrow>
               comprehension
                 (\<lambda>workflow. case py_getitem workflow ''path'' of
                     Inl e \<Rightarrow> Inl e
                   | Inr (JStr p) \<Rightarrow> Inr (path_name p)
                   | Inr _ \<Rightarrow> Inl TypeError)
                 workflows))"

definition workflows_url :: "string \<Rightarrow> string \<Rightarrow> string" where
  "workflows_url owner repository =
     ''https://api.github.com/repos/'' @ owner @ ''/'' @ repository
     @ ''/actions/workflows?per_page=100''"

definition workflows_error :: "string \<Rightarrow> string \<Rightarrow> string" where
  "workflows_error owner repository =
     ''ERROR reading workflows for user: '' @ owner @ '', repository: '' @ repository @ '', ''"

definition get_workflows ::
  "network \<Rightarrow> request list \<Rightarrow> string \<Rightarrow> string \<Rightarrow> string \<Rightarrow>
   ((error + string list) \<times> request list) option"
where
  "get_workflows net log owner repository github_token =
     paginated_get net (bearer_headers github_token) workflow_filenames
       (workflows_error owner repository) (Some (workflows_url owner repository)) [] log"

definition workflow_run_ids :: "json \<Rightarrow> error + json list" where
  "workflow_run_ids data =
     (case py_get data ''workflow_runs'' (JArr []) of
        Inl e \<Rightarrow> Inl e
      | Inr rs \<Rightarrow>
          (case py_iter rs of
             Inl e \<Rightarrow> Inl e
           | Inr runs \<Rightarrow> comprehension (\<lambda>run. py_getitem run ''id'') runs))"

definition workflow_runs_url :: "string \<Rightarrow> string \<Rightarrow> string" where
  "workflow_runs_url owner repository =
     ''https://api.github.com/repos/'' @ owner @ ''/'' @ repository
     @ ''/actions/runs?per_page=100''"

definition workflow_runs_error :: "string \<Rightarrow> string \<Rightarrow> string" where
  "workflow_runs_error owner repository =
     ''ERROR reading workflow runs for user: '' @ owner @ '', repository: '' @ repository
     @ '', ''"

definition get_workflow_runs ::
  "network \<Rightarrow> request list \<Rightarrow> string \<Rightarrow> string \<Rightarrow> string \<Rightarrow>
   ((error + json list) \<times> request list) option"
where
  "get_workflow_runs net log owner repository github_token =
     paginated_get net (bearer_headers github_token) workflow_run_ids
       (workflow_runs_error owner repository) (Some (workflow_runs_url owner repository)) [] log"

section \<open>The actions on one item\<close>

text \<open>
  \<^verbatim>\<open>enable_workflow\<close>. In the handler \<^verbatim>\<open>exc.response\<close> is the response that
  \<^verbatim>\<open>raise_for_status\<close> was called on, so \<^verbatim>\<open>resp\<close> is never \<^verbatim>\<open>None\<close> and the
  branch \<^verbatim>\<open>error_message = str(exc)\<close> cannot be reached. A transport exception of
  \<^verbatim>\<open>requests.put\<close> is no \<^verbatim>\<open>HTTPError\<close> and leaves the function as it is; so does the
  \<^verbatim>\<open>AttributeError\<close> of \<^verbatim>\<open>.get\<close> on a body that is JSON but no dict, which is no
  \<^verbatim>\<open>ValueError\<close>.
\<close>

definition enable_error_message :: "response \<Rightarrow> error + string" where
  "enable_error_message resp =
     (case json_body resp of
        None \<Rightarrow>
          Inr (if body_text resp \<noteq> [] then body_text resp
               else if reason resp \<noteq> [] then reason resp
               else ''Error'')
      | Some body \<Rightarrow>
          (case py_get body ''message'' (JStr ''Error'') of
             Inl e \<Rightarrow> Inl e
           | Inr error_message \<Rightarrow> Inr (py_str error_message)))"

definition enable_request :: "string \<Rightarrow> string \<Rightarrow> string \<Rightarrow> string \<Rightarrow> request" where
  "enable_request owner repository workflow_filename github_token =
     \<lparr>meth = PUT,
      url = ''https://api.github.com/repos/'' @ owner @ ''/'' @ repository
            @ ''/actions/workflows/'' @ workflow_filename @ ''/enable'',
      headers = [(''Accept'', ''application/vnd.github.v3+json''),
                 (''Authorization'', ''Bearer '' @ github_token)],
      timeout = REQUEST_TIMEOUT_SECONDS\<rparr>"

definition enable_workflow ::
  "network \<Rightarrow> request list \<Rightarrow> string \<Rightarrow> string \<Rightarrow> string \<Rightarrow> string \<Rightarrow>
   (error + string) \<times> request list"
where
  "enable_workflow net log owner repository workflow_filename github_token =
     (if startswith workflow_filename ''pages-build-deployment'' then
        (Inr (''Repository '' @ repository @ '', workflow '' @ workflow_filename
              @ '' skipped - those can not be enabled''), log)
      else if startswith workflow_filename ''dependabot'' then
        (Inr (''Repository '' @ repository @ '', workflow '' @ workflow_filename
              @ '' skipped - managed by Dependabot''), log)
      else
        (case send net log (enable_request owner repository workflow_filename github_token) of
           (Failed exc, log') \<Rightarrow> (Inl (RequestException exc), log')
         | (Replied response, log') \<Rightarrow>
             if raise_for_status response then
               (case enable_error_message response of
                  Inl e \<Rightarrow> (Inl e, log')
                | Inr error_message \<Rightarrow>
                    (Inl (RuntimeError
                            (''ERROR enabling repository '' @ repository @ '', workflow ''
                             @ workflow_filename @ '': '' @ error_message)), log'))
             else
               (Inr (''Enabled repository '' @ repository @ '', workflow '' @ workflow_filename),
                log')))"

text \<open>
  \<^verbatim>\<open>delete_workflow_run\<close>. The function does not call \<^verbatim>\<open>raise_for_status\<close>: the test
  \<^verbatim>\<open>response.status_code == 204\<close> only guards a log line, and the function returns
  \<^verbatim>\<open>None\<close> after any response. Only a transport exception reaches the handler.
\<close>

definition delete_request :: "string \<Rightarrow> string \<Rightarrow> string \<Rightarrow> json \<Rightarrow> request" where
  "delete_request owner repository github_token run_id_to_delete =
     \<lparr>meth = DELETE,
      url = ''https://api.github.com/repos/'' @ owner @ ''/'' @ repository
            @ ''/actions/runs/'' @ py_str run_id_to_delete,
      headers = bearer_headers github_token,
      timeout = REQUEST_TIMEOUT_SECONDS\<rparr>"

definition delete_workflow_run ::
  "network \<Rightarrow> request list \<Rightarrow> string \<Rightarrow> string \<Rightarrow> string \<Rightarrow> json \<Rightarrow>
   (error + unit) \<times> request list"
where
  "delete_workflow_run net log owner repository github_token run_id_to_delete =
     (case send net log (delete_request owner repository github_token run_id_to_delete) of
        (Failed exc, log') \<Rightarrow>
          (Inl (RuntimeError
                  (''ERROR deleting workflow run ID: '' @ py_str run_id_to_delete
                   @ '' for user: '' @ owner @ '', repository: '' @ repository @ '': '' @ exc)),
           log')
      | (Replied response, log') \<Rightarrow> (Inr (), log'))"

section \<open>The two sweeps\<close>

text \<open>
  \<^verbatim>\<open>enable_all_workflows\<close>: the loop over the workflows of one repository, the loop
  over the repositories, and the function. No loop has a \<^verbatim>\<open>try\<close> around its body: an
  exception of a listing or of an action ends the function.
\<close>

fun enable_workflows_loop ::
  "network \<Rightarrow> request list \<Rightarrow> string \<Rightarrow> string \<Rightarrow> string \<Rightarrow> string list \<Rightarrow>
   (error + unit) \<times> request list"
where
  "enable_workflows_loop net log owner repository github_token [] = (Inr (), log)"
| "enable_workflows_loop net log owner repository github_token (workflow_filename # workflows) =
     (case enable_workflow net log owner repository workflow_filename github_token of
        (Inl e, log') \<Rightarrow> (Inl e, log')
      | (Inr result, log') \<Rightarrow>
          enable_workflows_loop net log' owner repository github_token workflows)"

fun enable_repositories_loop ::
  "network \<Rightarrow> request list \<Rightarrow> string \<Rightarrow> string \<Rightarrow> string list \<Rightarrow>
   ((error + unit) \<times> request list) option"
where
  "enable_repositories_loop net log owner github_token [] = Some (Inr (), log)"
| "enable_repositories_loop net log owner github_token (repository # repositories) =
     (case get_workflows net log owner repository github_token of
        None \<Rightarrow> None
      | Some (Inl e, log') \<Rightarrow> Some (Inl e, log')
      | Some (Inr workflows, log') \<Rightarrow>
          (case enable_workflows_loop net log' owner repository github_token workflows of
             (Inl e, log'') \<Rightarrow> Some (Inl e, log'')
           | (Inr u, log'') \<Rightarrow>
               enable_repositories_loop net log'' owner github_token repositories))"

definition enable_all_workflows ::
  "network \<Rightarrow> request list \<Rightarrow> string \<Rightarrow> string \<Rightarrow> ((error + unit) \<times> request list) option"
where
  "enable_all_workflows net log owner github_token =
     (case get_repositories net log owner github_token of
        None \<Rightarrow> None
      | Some (Inl e, log') \<Rightarrow> Some (Inl e, log')
      | Some (Inr repositories, log') \<Rightarrow>
          enable_repositories_loop net log' owner github_token repositories)"

text \<open>
  \<^verbatim>\<open>delete_old_workflow_runs\<close>: the run identifiers of a repository are sorted in
  descending order and cut at \<^verbatim>\<open>number_of_workflow_runs_to_keep\<close>; what is left
  after the cut is deleted, one request per identifier.
\<close>

definition workflow_run_ids_to_delete :: "int \<Rightarrow> json list \<Rightarrow> error + json list" where
  "workflow_run_ids_to_delete number_of_workflow_runs_to_keep ids =
     (case py_sorted_reverse ids of
        Inl e \<Rightarrow> Inl e
      | Inr workflow_run_ids_sorted \<Rightarrow>
          Inr (py_slice_from number_of_workflow_runs_to_keep workflow_run_ids_sorted))"

fun delete_runs_loop ::
  "network \<Rightarrow> request list \<Rightarrow> string \<Rightarrow> string \<Rightarrow> string \<Rightarrow> json list \<Rightarrow>
   (error + unit) \<times> request list"
where
  "delete_runs_loop net log owner repository github_token [] = (Inr (), log)"
| "delete_runs_loop net log owner repository github_token (run_id_to_delete # run_ids) =
     (case delete_workflow_run net log owner repository github_token run_id_to_delete of
        (Inl e, log') \<Rightarrow> (Inl e, log')
      | (Inr u, log') \<Rightarrow> delete_runs_loop net log' owner repository github_token run_ids)"

fun delete_repositories_loop ::
  "network \<Rightarrow> request list \<Rightarrow> string \<Rightarrow> string \<Rightarrow> int \<Rightarrow> string list \<Rightarrow>
   ((error + unit) \<times> request list) option"
where
  "delete_repositories_loop net log owner github_token keep [] = Some (Inr (), log)"
| "delete_repositories_loop net log owner github_token keep (repository # repositories) =
     (case get_workflow_runs net log owner repository github_token of
        None \<Rightarrow> None
      | Some (Inl e, log') \<Rightarrow> Some (Inl e, log')
      | Some (Inr ids, log') \<Rightarrow>
          (case workflow_run_ids_to_delete keep ids of
             Inl e \<Rightarrow> Some (Inl e, log')
           | Inr to_delete \<Rightarrow>
               (case delete_runs_loop net log' owner repository github_token to_delete of
                  (Inl e, log'') \<Rightarrow> Some (Inl e, log'')
                | (Inr u, log'') \<Rightarrow>
                    delete_repositories_loop net log'' owner github_token keep repositories)))"

definition delete_old_workflow_runs ::
  "network \<Rightarrow> request list \<Rightarrow> string \<Rightarrow> string \<Rightarrow> int \<Rightarrow>
   ((error + unit) \<times> request list) option"
where
  "delete_old_workflow_runs net log owner github_token number_of_workflow_runs_to_keep =
     (case get_repositories net log owner github_token of
        None \<Rightarrow> None
      | Some (Inl e, log') \<Rightarrow> Some (Inl e, log')
      | Some (Inr l_repositories, log') \<Rightarrow>
          delete_repositories_loop net log' owner github_token
            number_of_workflow_runs_to_keep l_repositories)"

section \<open>Configuration lookup\<close>


















section \<open>Notions used in the statements\<close>

text \<open>
  \<open>serves net hs log u pages\<close>: asked for \<open>u\<close> after the requests \<open>log\<close>, the server
  answers with the first of \<open>pages\<close>, and every page but the last carries the next
  link under which the server answers with the page after it. \<open>pages_log\<close> lists the
  requests this takes, and \<open>page_items\<close> is what the loop takes from one page.
\<close>

fun serves ::
  "network \<Rightarrow> (string \<times> string) list \<Rightarrow> request list \<Rightarrow> string \<Rightarrow> response list \<Rightarrow> bool"
where
  "serves net hs log u [] = True"
| "serves net hs log u [p] = (u \<noteq> [] \<and> net log (get_request u hs) = Replied p)"
| "serves net hs log u (p # q # ps) =
     (u \<noteq> [] \<and> net log (get_request u hs) = Replied p \<and>
      (case next_url p of
         None \<Rightarrow> False
       | Some u' \<Rightarrow> serves net hs (log @ [get_request u hs]) u' (q # ps)))"

fun pages_log :: "(string \<times> string) list \<Rightarrow> string \<Rightarrow> response list \<Rightarrow> request list" where
  "pages_log hs u [] = []"
| "pages_log hs u [p] = [get_request u hs]"
| "pages_log hs u (p # q # ps) =
     get_request u hs #
     (case next_url p of None \<Rightarrow> [] | Some u' \<Rightarrow> pages_log hs u' (q # ps))"

definition page_items :: "(json \<Rightarrow> error + 'a list) \<Rightarrow> response \<Rightarrow> error + 'a list" where
  "page_items items_of p =
     (case json_body p of None \<Rightarrow> Inl JSONDecodeError | Some data \<Rightarrow> items_of data)"

text \<open>
  \<open>good_pages\<close>: the server serves \<open>pages\<close>, none of them has a status that
  \<^verbatim>\<open>raise_for_status\<close> rejects, and \<open>itemss\<close> are the items of each page.
\<close>

definition good_pages ::
  "network \<Rightarrow> (string \<times> string) list \<Rightarrow> request list \<Rightarrow> string \<Rightarrow> (json \<Rightarrow> error + 'a list) \<Rightarrow>
   response list \<Rightarrow> 'a list list \<Rightarrow> bool"
where
  "good_pages net hs log u items_of pages itemss =
     (serves net hs log u pages \<and> list_all (\<lambda>p. \<not> raise_for_status p) pages \<and>
      comprehension (page_items items_of) pages = Inr itemss)"

text \<open>
  \<open>smallest_descending n ids\<close>: the \<open>n\<close> smallest of the identifiers \<open>ids\<close>, the
  largest of them first. \<open>deletion_count keep ids\<close>: \<^verbatim>\<open>max(0, len(ids) - keep)\<close>.
\<close>

definition smallest_descending :: "nat \<Rightarrow> int list \<Rightarrow> int list" where
  "smallest_descending n ids = rev (take n (sort ids))"

definition deletion_count :: "int \<Rightarrow> int list \<Rightarrow> nat" where
  "deletion_count keep ids = nat (max 0 (int (length ids) - keep))"


section \<open>Example servers and hosts\<close>

text \<open>Responses and servers at which the properties below are instantiated.\<close>

definition no_content :: response where
  "no_content =
     \<lparr>status_code = 204, reason = ''No Content'', body_text = [], json_body = None,
      next_url = None\<rparr>"

definition not_found :: response where
  "not_found =
     \<lparr>status_code = 404, reason = ''Not Found'', body_text = [],
      json_body = Some (JObj [(''message'', JStr ''Not Found'')]), next_url = None\<rparr>"

text \<open>The server that answers every request with the same response.\<close>

definition const_net :: "response \<Rightarrow> network" where
  "const_net r log q = Replied r"

definition json_page :: "json \<Rightarrow> string option \<Rightarrow> response" where
  "json_page body link =
     \<lparr>status_code = 200, reason = ''OK'', body_text = [], json_body = Some body,
      next_url = link\<rparr>"

definition second_page_url :: string where
  "second_page_url = ''https://api.github.com/user/1/repos?per_page=100&page=2''"

definition repositories_page_1 :: response where
  "repositories_page_1 =
     json_page (JArr [JObj [(''name'', JStr ''lib_x'')]]) (Some second_page_url)"

definition repositories_page_2 :: response where
  "repositories_page_2 = json_page (JArr [JObj [(''name'', JStr ''lib_y'')]]) None"

definition dangling_page :: response where
  "dangling_page =
     json_page (JArr [JObj [(''name'', JStr ''hello'')]])
       (Some ''https://api.github.com/user/2/repos?per_page=100&page=2'')"

definition lib_x_workflows :: response where
  "lib_x_workflows =
     json_page
       (JObj [(''total_count'', JInt 2),
              (''workflows'',
               JArr [JObj [(''path'', JStr ''.github/workflows/ci.yml'')],
                     JObj [(''path'', JStr ''.github/workflows/dependabot-updates.yml'')]])])
       None"

definition lib_y_workflows :: response where
  "lib_y_workflows =
     json_page
       (JObj [(''total_count'', JInt 2),
              (''workflows'',
               JArr [JObj [(''path'', JStr ''.github/workflows/broken.yml'')],
                     JObj [(''path'', JStr ''.github/workflows/later.yml'')]])])
       None"

definition lib_x_runs :: response where
  "lib_x_runs =
     json_page
       (JObj [(''total_count'', JInt 5),
              (''workflow_runs'',
               JArr [JObj [(''id'', JInt 3)], JObj [(''id'', JInt 1)], JObj [(''id'', JInt 2)],
                     JObj [(''id'', JInt 5)], JObj [(''id'', JInt 4)]])])
       None"

definition lib_y_runs :: response where
  "lib_y_runs = json_page (JObj [(''total_count'', JInt 0), (''workflow_runs'', JArr [])]) None"

text \<open>
  A server with the owner \<^verbatim>\<open>bitranox\<close>, whose repositories \<^verbatim>\<open>lib_x\<close> and \<^verbatim>\<open>lib_y\<close>
  come on two pages. In \<^verbatim>\<open>lib_x\<close> the workflow \<^verbatim>\<open>ci.yml\<close> can be enabled, and the
  deletion of run 2 fails in the transport; every other deletion succeeds. The first
  page of the repositories of \<^verbatim>\<open>octocat\<close> links to a page that does not exist.
  Everything else is answered with 404.
\<close>

definition example_net :: network where
  "example_net log q =
     (if meth q = GET \<and> url q = repositories_url ''bitranox'' then Replied repositories_page_1
      else if meth q = GET \<and> url q = second_page_url then Replied repositories_page_2
      else if meth q = GET \<and> url q = repositories_url ''octocat'' then Replied dangling_page
      else if meth q = GET \<and> url q = workflows_url ''bitranox'' ''lib_x'' then
        Replied lib_x_workflows
      else if meth q = GET \<and> url q = workflows_url ''bitranox'' ''lib_y'' then
        Replied lib_y_workflows
      else if meth q = GET \<and> url q = workflow_runs_url ''bitranox'' ''lib_x'' then
        Replied lib_x_runs
      else if meth q = GET \<and> url q = workflow_runs_url ''bitranox'' ''lib_y'' then
        Replied lib_y_runs
      else if meth q = PUT
           \<and> url q = url (enable_request ''bitranox'' ''lib_x'' ''ci.yml'' []) then
        Replied no_content
      else if meth q = DELETE
           \<and> url q = url (delete_request ''bitranox'' ''lib_x'' [] (JInt 2)) then
        Failed ''Connection aborted.''
      else if meth q = DELETE then Replied no_content
      else Replied not_found)"

definition multiple_choices :: response where
  "multiple_choices =
     \<lparr>status_code = 300, reason = ''Multiple Choices'', body_text = [],
      json_body = Some (JArr [JObj [(''name'', JStr ''lib_x'')]]), next_url = None\<rparr>"

definition not_modified :: response where
  "not_modified =
     \<lparr>status_code = 304, reason = ''Not Modified'', body_text = [], json_body = None,
      next_url = None\<rparr>"

definition forbidden :: response where
  "forbidden =
     \<lparr>status_code = 403, reason = ''Forbidden'', body_text = [],
      json_body = Some (JObj [(''documentation_url'', JStr ''https://docs.github.com/rest'')]),
      next_url = None\<rparr>"

definition bad_gateway :: response where
  "bad_gateway =
     \<lparr>status_code = 502, reason = ''Bad Gateway'', body_text = ''<html>502</html>'',
      json_body = None, next_url = None\<rparr>"





section \<open>Properties\<close>

subsection \<open>The paginated loop\<close>

lemma paginated_get_step:
  assumes "u \<noteq> []" "net log (get_request u hs) = Replied p" "\<not> raise_for_status p"
    "page_items items_of p = Inr new"
  shows "paginated_get net hs items_of what (Some u) acc log =
         paginated_get net hs items_of what (next_url p) (acc @ new) (log @ [get_request u hs])"
  using assms
  by (subst paginated_get.simps) (simp add: send_def page_items_def split: option.splits)

lemma paginated_get_stop:
  "\<not> truthy link \<Longrightarrow> paginated_get net hs items_of what link acc log = Some (Inr acc, log)"
  by (subst paginated_get.simps) (simp add: truthy_def split: option.splits)

lemma paginated_get_raise:
  assumes "u \<noteq> []" "net log (get_request u hs) = Replied p" "raise_for_status p"
  shows "paginated_get net hs items_of what (Some u) acc log =
         Some (Inl (listing_error what p), log @ [get_request u hs])"
  using assms by (subst paginated_get.simps) (simp add: send_def)

lemma comprehension_Cons:
  "comprehension f (x # xs) = Inr ys \<longleftrightarrow>
   (\<exists>y ys'. f x = Inr y \<and> comprehension f xs = Inr ys' \<and> ys = y # ys')"
  by (auto split: sum.splits)

lemma paginated_get_all:
  "pages \<noteq> [] \<Longrightarrow> serves net hs log u pages \<Longrightarrow> \<not> truthy (next_url (last pages)) \<Longrightarrow>
   list_all (\<lambda>p. \<not> raise_for_status p) pages \<Longrightarrow>
   comprehension (page_items items_of) pages = Inr itemss \<Longrightarrow>
   paginated_get net hs items_of what (Some u) acc log =
     Some (Inr (acc @ concat itemss), log @ pages_log hs u pages)"
proof (induction net hs log u pages arbitrary: acc itemss rule: serves.induct)
  case (1 net hs log u)
  then show ?case by simp
next
  case (2 net hs log u p)
  then obtain new where new: "page_items items_of p = Inr new" "itemss = [new]"
    by (auto split: sum.splits)
  from 2 have "paginated_get net hs items_of what (Some u) acc log =
      paginated_get net hs items_of what (next_url p) (acc @ new) (log @ [get_request u hs])"
    by (intro paginated_get_step) (use new in auto)
  also have "\<dots> = Some (Inr (acc @ new), log @ [get_request u hs])"
    using 2 by (intro paginated_get_stop) simp
  finally show ?case using new by simp
next
  case (3 net hs log u p q ps)
  from "3.prems" obtain u' where u': "next_url p = Some u'"
    and sv: "serves net hs (log @ [get_request u hs]) u' (q # ps)"
    by (auto split: option.splits)
  from "3.prems" obtain new rest where new: "page_items items_of p = Inr new"
    "comprehension (page_items items_of) (q # ps) = Inr rest" "itemss = new # rest"
    by (auto simp: comprehension_Cons simp del: comprehension.simps)
  from "3.prems" have "paginated_get net hs items_of what (Some u) acc log =
      paginated_get net hs items_of what (Some u') (acc @ new) (log @ [get_request u hs])"
    using paginated_get_step [where u = u and net = net and log = log and hs = hs and p = p
        and items_of = items_of and new = new and what = what and acc = acc] new u'
    by simp
  also have "\<dots> = Some (Inr ((acc @ new) @ concat rest),
      (log @ [get_request u hs]) @ pages_log hs u' (q # ps))"
    using "3.prems" new sv by (intro "3.IH" [OF u']) auto
  finally show ?case using new u' by simp
qed

lemma paginated_get_broken:
  "serves net hs log u (pages @ [bad]) \<Longrightarrow> raise_for_status bad \<Longrightarrow>
   list_all (\<lambda>p. \<not> raise_for_status p) pages \<Longrightarrow>
   comprehension (page_items items_of) pages = Inr itemss \<Longrightarrow>
   paginated_get net hs items_of what (Some u) acc log =
     Some (Inl (listing_error what bad), log @ pages_log hs u (pages @ [bad]))"
proof (induction pages arbitrary: u acc log itemss)
  case Nil
  then show ?case by (simp add: paginated_get_raise)
next
  case (Cons p pages)
  obtain q qs where q: "pages @ [bad] = q # qs" by (cases pages) auto
  from Cons.prems q obtain u' where u': "next_url p = Some u'"
    and sv: "serves net hs (log @ [get_request u hs]) u' (pages @ [bad])"
    and u: "u \<noteq> []" "net log (get_request u hs) = Replied p"
    by (auto split: option.splits)
  from Cons.prems obtain new rest where new: "page_items items_of p = Inr new"
    "comprehension (page_items items_of) pages = Inr rest" "itemss = new # rest"
    by (auto simp: comprehension_Cons simp del: comprehension.simps)
  have "paginated_get net hs items_of what (Some u) acc log =
      paginated_get net hs items_of what (Some u') (acc @ new) (log @ [get_request u hs])"
    using paginated_get_step [where u = u and net = net and log = log and hs = hs and p = p
        and items_of = items_of and new = new and what = what and acc = acc] new u' u Cons.prems
    by simp
  also have "\<dots> = Some (Inl (listing_error what bad),
      (log @ [get_request u hs]) @ pages_log hs u' (pages @ [bad]))"
    using Cons.prems new sv by (intro Cons.IH) auto
  finally show ?case using u' q by simp
qed

subsection \<open>Activation of one workflow\<close>

lemma dependabot_not_pages:
  "startswith w ''dependabot'' \<Longrightarrow> \<not> startswith w ''pages-build-deployment''"
  by (cases w) (auto simp: startswith_def)

lemma enable_workflow_pages:
  "startswith w ''pages-build-deployment'' \<Longrightarrow>
   enable_workflow net log owner repo w tok =
     (Inr (''Repository '' @ repo @ '', workflow '' @ w
           @ '' skipped - those can not be enabled''), log)"
  by (simp add: enable_workflow_def)

lemma enable_workflow_dependabot:
  "startswith w ''dependabot'' \<Longrightarrow>
   enable_workflow net log owner repo w tok =
     (Inr (''Repository '' @ repo @ '', workflow '' @ w
           @ '' skipped - managed by Dependabot''), log)"
  using dependabot_not_pages [of w] by (simp add: enable_workflow_def)

lemma enable_workflow_log:
  "\<not> startswith w ''pages-build-deployment'' \<Longrightarrow> \<not> startswith w ''dependabot'' \<Longrightarrow>
   snd (enable_workflow net log owner repo w tok) = log @ [enable_request owner repo w tok]"
  by (simp add: enable_workflow_def send_def split: reply.splits sum.splits)

lemma enable_workflow_enabled:
  "\<not> startswith w ''pages-build-deployment'' \<Longrightarrow> \<not> startswith w ''dependabot'' \<Longrightarrow>
   net log (enable_request owner repo w tok) = Replied r \<Longrightarrow> \<not> raise_for_status r \<Longrightarrow>
   enable_workflow net log owner repo w tok =
     (Inr (''Enabled repository '' @ repo @ '', workflow '' @ w),
      log @ [enable_request owner repo w tok])"
  by (simp add: enable_workflow_def send_def)

text \<open>
  Claim C4. The outcome of \<^verbatim>\<open>enable_workflow\<close> is decided by the prefix of the file
  name: a name that starts with \<^verbatim>\<open>pages-build-deployment\<close> is skipped and the
  request log is unchanged; a name that starts with \<^verbatim>\<open>dependabot\<close> is skipped and
  the request log is unchanged; for every other name exactly one request is added to
  the log, the PUT of the enable URL, and a response with a 2xx status gives the
  \<^verbatim>\<open>Enabled\<close> message.
\<close>

theorem enable_workflow_classification:
  "(startswith w ''pages-build-deployment'' \<longrightarrow>
      enable_workflow net log owner repo w tok =
        (Inr (''Repository '' @ repo @ '', workflow '' @ w
              @ '' skipped - those can not be enabled''), log))
 \<and> (startswith w ''dependabot'' \<longrightarrow>
      enable_workflow net log owner repo w tok =
        (Inr (''Repository '' @ repo @ '', workflow '' @ w
              @ '' skipped - managed by Dependabot''), log))
 \<and> (\<not> startswith w ''pages-build-deployment'' \<and> \<not> startswith w ''dependabot'' \<longrightarrow>
      snd (enable_workflow net log owner repo w tok) = log @ [enable_request owner repo w tok]
      \<and> meth (enable_request owner repo w tok) = PUT
      \<and> (\<forall>r. net log (enable_request owner repo w tok) = Replied r
              \<and> 200 \<le> status_code r \<and> status_code r < 300 \<longrightarrow>
            fst (enable_workflow net log owner repo w tok) =
              Inr (''Enabled repository '' @ repo @ '', workflow '' @ w)))"
proof (intro conjI impI allI)
  assume "startswith w ''pages-build-deployment''"
  then show "enable_workflow net log owner repo w tok =
        (Inr (''Repository '' @ repo @ '', workflow '' @ w
              @ '' skipped - those can not be enabled''), log)"
    by (rule enable_workflow_pages)
next
  assume "startswith w ''dependabot''"
  then show "enable_workflow net log owner repo w tok =
        (Inr (''Repository '' @ repo @ '', workflow '' @ w
              @ '' skipped - managed by Dependabot''), log)"
    by (rule enable_workflow_dependabot)
next
  assume "\<not> startswith w ''pages-build-deployment'' \<and> \<not> startswith w ''dependabot''"
  then show "snd (enable_workflow net log owner repo w tok) =
      log @ [enable_request owner repo w tok]"
    by (simp add: enable_workflow_log)
next
  show "meth (enable_request owner repo w tok) = PUT"
    by (simp add: enable_request_def)
next
  fix r
  assume a: "\<not> startswith w ''pages-build-deployment'' \<and> \<not> startswith w ''dependabot''"
    and b: "net log (enable_request owner repo w tok) = Replied r
              \<and> 200 \<le> status_code r \<and> status_code r < 300"
  then have "\<not> raise_for_status r" by (simp add: raise_for_status_def)
  with a b show "fst (enable_workflow net log owner repo w tok) =
              Inr (''Enabled repository '' @ repo @ '', workflow '' @ w)"
    by (simp add: enable_workflow_enabled)
qed

theorem enable_workflow_classification_witness:
  "enable_workflow (const_net no_content) [] ''bitranox'' ''lib_x''
       ''pages-build-deployment-x.yml'' ''t'' =
     (Inr ''Repository lib_x, workflow pages-build-deployment-x.yml skipped - those can not be enabled'',
      [])
 \<and> enable_workflow (const_net no_content) [] ''bitranox'' ''lib_x'' ''dependabot-y.yml'' ''t'' =
     (Inr ''Repository lib_x, workflow dependabot-y.yml skipped - managed by Dependabot'', [])
 \<and> snd (enable_workflow (const_net no_content) [] ''bitranox'' ''lib_x'' ''ci.yml'' ''t'') =
     [enable_request ''bitranox'' ''lib_x'' ''ci.yml'' ''t'']
 \<and> fst (enable_workflow (const_net no_content) [] ''bitranox'' ''lib_x'' ''ci.yml'' ''t'') =
     Inr ''Enabled repository lib_x, workflow ci.yml''"
  using
    enable_workflow_classification [where w = "''pages-build-deployment-x.yml''"
      and net = "const_net no_content" and log = "[]" and owner = "''bitranox''"
      and repo = "''lib_x''" and tok = "''t''"]
    enable_workflow_classification [where w = "''dependabot-y.yml''"
      and net = "const_net no_content" and log = "[]" and owner = "''bitranox''"
      and repo = "''lib_x''" and tok = "''t''"]
    enable_workflow_classification [where w = "''ci.yml''"
      and net = "const_net no_content" and log = "[]" and owner = "''bitranox''"
      and repo = "''lib_x''" and tok = "''t''"]
  by (simp add: startswith_def const_net_def no_content_def)

subsection \<open>The listings\<close>

lemma get_listing_all:
  assumes "pages \<noteq> []" "good_pages net hs log u items_of pages itemss"
    "\<not> truthy (next_url (last pages))"
  shows "paginated_get net hs items_of what (Some u) [] log =
         Some (Inr (concat itemss), log @ pages_log hs u pages)"
proof -
  from assms(2) have g: "serves net hs log u pages"
    "list_all (\<lambda>p. \<not> raise_for_status p) pages"
    "comprehension (page_items items_of) pages = Inr itemss"
    by (simp_all add: good_pages_def)
  from paginated_get_all [OF assms(1) g(1) assms(3) g(2) g(3), of what "[]"]
  show ?thesis by simp
qed

lemma get_listing_broken:
  assumes "400 \<le> status_code bad" "status_code bad < 600"
    "serves net hs log u (pages @ [bad])" "good_pages net hs log u items_of pages itemss"
  shows "paginated_get net hs items_of what (Some u) [] log =
         Some (Inl (listing_error what bad), log @ pages_log hs u (pages @ [bad]))"
proof -
  from assms(4) have g: "list_all (\<lambda>p. \<not> raise_for_status p) pages"
    "comprehension (page_items items_of) pages = Inr itemss"
    by (simp_all add: good_pages_def)
  from assms(1,2) have "raise_for_status bad" by (simp add: raise_for_status_def)
  from paginated_get_broken [OF assms(3) this g, of what "[]"]
  show ?thesis by simp
qed

text \<open>
  Claim C2, as amended. When the server answers the page requests of a listing with a
  sequence of pages of which every one but the last carries a next link, and no page
  has a status that \<^verbatim>\<open>raise_for_status\<close> rejects, then \<^verbatim>\<open>get_repositories\<close>,
  \<^verbatim>\<open>get_workflows\<close> and \<^verbatim>\<open>get_workflow_runs\<close> return the items of the pages,
  concatenated in page order; their number is the sum of the numbers per page. When
  instead, after any number of such pages, a page has a 4xx or 5xx status, the listing
  returns no items: it raises the error of its handler.
\<close>

theorem paginated_listings:
  "(pages \<noteq> [] \<and> \<not> truthy (next_url (last pages))
    \<and> good_pages net (bearer_headers tok) log (repositories_url owner) repository_names
         pages names \<longrightarrow>
      get_repositories net log owner tok =
        Some (Inr (concat names),
              log @ pages_log (bearer_headers tok) (repositories_url owner) pages)
      \<and> length (concat names) = sum_list (map length names))
 \<and> (pages \<noteq> [] \<and> \<not> truthy (next_url (last pages))
    \<and> good_pages net (bearer_headers tok) log (workflows_url owner repo) workflow_filenames
         pages names \<longrightarrow>
      get_workflows net log owner repo tok =
        Some (Inr (concat names),
              log @ pages_log (bearer_headers tok) (workflows_url owner repo) pages)
      \<and> length (concat names) = sum_list (map length names))
 \<and> (pages \<noteq> [] \<and> \<not> truthy (next_url (last pages))
    \<and> good_pages net (bearer_headers tok) log (workflow_runs_url owner repo) workflow_run_ids
         pages ids \<longrightarrow>
      get_workflow_runs net log owner repo tok =
        Some (Inr (concat ids),
              log @ pages_log (bearer_headers tok) (workflow_runs_url owner repo) pages)
      \<and> length (concat ids) = sum_list (map length ids))
 \<and> (400 \<le> status_code bad \<and> status_code bad < 600
    \<and> serves net (bearer_headers tok) log (repositories_url owner) (pages @ [bad])
    \<and> good_pages net (bearer_headers tok) log (repositories_url owner) repository_names
         pages names \<longrightarrow>
      get_repositories net log owner tok =
        Some (Inl (listing_error (repositories_error owner) bad),
              log @ pages_log (bearer_headers tok) (repositories_url owner) (pages @ [bad])))
 \<and> (400 \<le> status_code bad \<and> status_code bad < 600
    \<and> serves net (bearer_headers tok) log (workflows_url owner repo) (pages @ [bad])
    \<and> good_pages net (bearer_headers tok) log (workflows_url owner repo) workflow_filenames
         pages names \<longrightarrow>
      get_workflows net log owner repo tok =
        Some (Inl (listing_error (workflows_error owner repo) bad),
              log @ pages_log (bearer_headers tok) (workflows_url owner repo) (pages @ [bad])))
 \<and> (400 \<le> status_code bad \<and> status_code bad < 600
    \<and> serves net (bearer_headers tok) log (workflow_runs_url owner repo) (pages @ [bad])
    \<and> good_pages net (bearer_headers tok) log (workflow_runs_url owner repo) workflow_run_ids
         pages ids \<longrightarrow>
      get_workflow_runs net log owner repo tok =
        Some (Inl (listing_error (workflow_runs_error owner repo) bad),
              log @ pages_log (bearer_headers tok) (workflow_runs_url owner repo)
                      (pages @ [bad])))"
  unfolding get_repositories_def get_workflows_def get_workflow_runs_def
  by (intro conjI impI; (elim conjE)?; (rule get_listing_all | rule get_listing_broken | rule length_concat); assumption?)

theorem paginated_listings_witness:
  "get_repositories example_net [] ''bitranox'' ''t'' =
     Some (Inr [''lib_x'', ''lib_y''],
           [get_request (repositories_url ''bitranox'') (bearer_headers ''t''),
            get_request second_page_url (bearer_headers ''t'')])
 \<and> get_workflows example_net [] ''bitranox'' ''lib_x'' ''t'' =
     Some (Inr [''ci.yml'', ''dependabot-updates.yml''],
           [get_request (workflows_url ''bitranox'' ''lib_x'') (bearer_headers ''t'')])
 \<and> get_workflow_runs example_net [] ''bitranox'' ''lib_x'' ''t'' =
     Some (Inr [JInt 3, JInt 1, JInt 2, JInt 5, JInt 4],
           [get_request (workflow_runs_url ''bitranox'' ''lib_x'') (bearer_headers ''t'')])
 \<and> get_repositories example_net [] ''octocat'' ''t'' =
     Some (Inl (RuntimeError ''ERROR reading repositories for user octocat: Not Found''),
           [get_request (repositories_url ''octocat'') (bearer_headers ''t''),
            get_request ''https://api.github.com/user/2/repos?per_page=100&page=2''
              (bearer_headers ''t'')])
 \<and> get_workflows example_net [] ''bitranox'' ''unknown_repository'' ''t'' =
     Some (Inl (RuntimeError
                  ''ERROR reading workflows for user: bitranox, repository: unknown_repository, Not Found''),
           [get_request (workflows_url ''bitranox'' ''unknown_repository'')
              (bearer_headers ''t'')])
 \<and> get_workflow_runs example_net [] ''bitranox'' ''unknown_repository'' ''t'' =
     Some (Inl (RuntimeError
                  ''ERROR reading workflow runs for user: bitranox, repository: unknown_repository, Not Found''),
           [get_request (workflow_runs_url ''bitranox'' ''unknown_repository'')
              (bearer_headers ''t'')])"
proof -
  have h1: "[repositories_page_1, repositories_page_2] \<noteq> []
      \<and> \<not> truthy (next_url (last [repositories_page_1, repositories_page_2]))
      \<and> good_pages example_net (bearer_headers ''t'') [] (repositories_url ''bitranox'')
          repository_names [repositories_page_1, repositories_page_2] [[''lib_x''], [''lib_y'']]"
    by code_simp
  have h2: "[lib_x_workflows] \<noteq> [] \<and> \<not> truthy (next_url (last [lib_x_workflows]))
      \<and> good_pages example_net (bearer_headers ''t'') [] (workflows_url ''bitranox'' ''lib_x'')
          workflow_filenames [lib_x_workflows] [[''ci.yml'', ''dependabot-updates.yml'']]"
    by code_simp
  have h3: "[lib_x_runs] \<noteq> [] \<and> \<not> truthy (next_url (last [lib_x_runs]))
      \<and> good_pages example_net (bearer_headers ''t'') [] (workflow_runs_url ''bitranox'' ''lib_x'')
          workflow_run_ids [lib_x_runs] [[JInt 3, JInt 1, JInt 2, JInt 5, JInt 4]]"
    by code_simp
  have h4: "400 \<le> status_code not_found \<and> status_code not_found < 600
      \<and> serves example_net (bearer_headers ''t'') [] (repositories_url ''octocat'')
          ([dangling_page] @ [not_found])
      \<and> good_pages example_net (bearer_headers ''t'') [] (repositories_url ''octocat'')
          repository_names [dangling_page] [[''hello'']]"
    by code_simp
  have h5: "400 \<le> status_code not_found \<and> status_code not_found < 600
      \<and> serves example_net (bearer_headers ''t'') []
          (workflows_url ''bitranox'' ''unknown_repository'') ([] @ [not_found])
      \<and> good_pages example_net (bearer_headers ''t'') []
          (workflows_url ''bitranox'' ''unknown_repository'') workflow_filenames [] []"
    by code_simp
  have h6: "400 \<le> status_code not_found \<and> status_code not_found < 600
      \<and> serves example_net (bearer_headers ''t'') []
          (workflow_runs_url ''bitranox'' ''unknown_repository'') ([] @ [not_found])
      \<and> good_pages example_net (bearer_headers ''t'') []
          (workflow_runs_url ''bitranox'' ''unknown_repository'') workflow_run_ids [] []"
    by code_simp
  note t = paginated_listings [where net = example_net and log = "[]" and tok = "''t''"]
  from h1 t [where owner = "''bitranox''"
      and pages = "[repositories_page_1, repositories_page_2]"
      and names = "[[''lib_x''], [''lib_y'']]"]
  have r1: "get_repositories example_net [] ''bitranox'' ''t'' =
     Some (Inr (concat [[''lib_x''], [''lib_y'']]),
       [] @ pages_log (bearer_headers ''t'') (repositories_url ''bitranox'')
              [repositories_page_1, repositories_page_2])"
    by blast
  from h2 t [where owner = "''bitranox''" and repo = "''lib_x''"
      and pages = "[lib_x_workflows]" and names = "[[''ci.yml'', ''dependabot-updates.yml'']]"]
  have r2: "get_workflows example_net [] ''bitranox'' ''lib_x'' ''t'' =
     Some (Inr (concat [[''ci.yml'', ''dependabot-updates.yml'']]),
       [] @ pages_log (bearer_headers ''t'') (workflows_url ''bitranox'' ''lib_x'')
              [lib_x_workflows])"
    by blast
  from h3 t [where owner = "''bitranox''" and repo = "''lib_x''"
      and pages = "[lib_x_runs]" and ids = "[[JInt 3, JInt 1, JInt 2, JInt 5, JInt 4]]"]
  have r3: "get_workflow_runs example_net [] ''bitranox'' ''lib_x'' ''t'' =
     Some (Inr (concat [[JInt 3, JInt 1, JInt 2, JInt 5, JInt 4]]),
       [] @ pages_log (bearer_headers ''t'') (workflow_runs_url ''bitranox'' ''lib_x'')
              [lib_x_runs])"
    by blast
  from h4 t [where owner = "''octocat''" and pages = "[dangling_page]" and bad = not_found
      and names = "[[''hello'']]"]
  have r4: "get_repositories example_net [] ''octocat'' ''t'' =
     Some (Inl (listing_error (repositories_error ''octocat'') not_found),
       [] @ pages_log (bearer_headers ''t'') (repositories_url ''octocat'')
              ([dangling_page] @ [not_found]))"
    by blast
  from h5 t [where owner = "''bitranox''" and repo = "''unknown_repository''"
      and pages = "[]" and bad = not_found and names = "[]"]
  have r5: "get_workflows example_net [] ''bitranox'' ''unknown_repository'' ''t'' =
     Some (Inl (listing_error (workflows_error ''bitranox'' ''unknown_repository'') not_found),
       [] @ pages_log (bearer_headers ''t'') (workflows_url ''bitranox'' ''unknown_repository'')
              ([] @ [not_found]))"
    by blast
  from h6 t [where owner = "''bitranox''" and repo = "''unknown_repository''"
      and pages = "[]" and bad = not_found and ids = "[]"]
  have r6: "get_workflow_runs example_net [] ''bitranox'' ''unknown_repository'' ''t'' =
     Some (Inl (listing_error (workflow_runs_error ''bitranox'' ''unknown_repository'')
                  not_found),
       [] @ pages_log (bearer_headers ''t'')
              (workflow_runs_url ''bitranox'' ''unknown_repository'') ([] @ [not_found]))"
    by blast
  have e: "listing_error (repositories_error ''octocat'') not_found =
        RuntimeError ''ERROR reading repositories for user octocat: Not Found''"
      "listing_error (workflows_error ''bitranox'' ''unknown_repository'') not_found =
        RuntimeError
          ''ERROR reading workflows for user: bitranox, repository: unknown_repository, Not Found''"
      "listing_error (workflow_runs_error ''bitranox'' ''unknown_repository'') not_found =
        RuntimeError
          ''ERROR reading workflow runs for user: bitranox, repository: unknown_repository, Not Found''"
    by (simp_all add: listing_error_def not_found_def py_get_def py_str_def
        repositories_error_def workflows_error_def workflow_runs_error_def)
  have n: "next_url repositories_page_1 = Some second_page_url"
    "next_url dangling_page = Some ''https://api.github.com/user/2/repos?per_page=100&page=2''"
    by (simp_all add: repositories_page_1_def dangling_page_def json_page_def)
  show ?thesis
    unfolding r1 r2 r3 r4 r5 r6 e by (simp add: n)
qed

text \<open>
  The claim as stated, with any status outside 2xx in place of 4xx and 5xx, fails: a
  page with status 300 and a well-formed body is taken as a page like any other.
\<close>

theorem paginated_listings_counterexample:
  "\<not> (200 \<le> status_code multiple_choices \<and> status_code multiple_choices < 300)
 \<and> const_net multiple_choices []
      (get_request (repositories_url ''bitranox'') (bearer_headers ''t'')) =
     Replied multiple_choices
 \<and> get_repositories (const_net multiple_choices) [] ''bitranox'' ''t'' =
     Some (Inr [''lib_x''],
           [get_request (repositories_url ''bitranox'') (bearer_headers ''t'')])"
  by code_simp

subsection \<open>Failure of the repository listing\<close>





subsection \<open>Deletion of one run\<close>

lemma delete_workflow_run_replied:
  "net log (delete_request owner repo tok run) = Replied r \<Longrightarrow>
   delete_workflow_run net log owner repo tok run =
     (Inr (), log @ [delete_request owner repo tok run])"
  by (simp add: delete_workflow_run_def send_def)

lemma delete_workflow_run_failed:
  "net log (delete_request owner repo tok run) = Failed exc \<Longrightarrow>
   delete_workflow_run net log owner repo tok run =
     (Inl (RuntimeError (''ERROR deleting workflow run ID: '' @ py_str run @ '' for user: ''
                         @ owner @ '', repository: '' @ repo @ '': '' @ exc)),
      log @ [delete_request owner repo tok run])"
  by (simp add: delete_workflow_run_def send_def)

text \<open>
  Claim C6, at the input where the code departs from it: the deletion of a run that
  the server answers with 404. The claim asks for a failure that carries owner,
  repository, run identifier and cause; \<^verbatim>\<open>delete_workflow_run\<close> returns normally, as it
  does for status 204.
\<close>

theorem delete_workflow_run_not_found:
  "status_code not_found = 404
 \<and> const_net not_found [] (delete_request ''bitranox'' ''lib_x'' ''t'' (JInt 42)) =
     Replied not_found
 \<and> delete_workflow_run (const_net not_found) [] ''bitranox'' ''lib_x'' ''t'' (JInt 42) =
     (Inr (), [delete_request ''bitranox'' ''lib_x'' ''t'' (JInt 42)])"
  by (simp add: delete_workflow_run_replied const_net_def not_found_def)

subsection \<open>The message of a failed activation\<close>

lemma enable_workflow_raise:
  "\<not> startswith w ''pages-build-deployment'' \<Longrightarrow> \<not> startswith w ''dependabot'' \<Longrightarrow>
   net log (enable_request owner repo w tok) = Replied r \<Longrightarrow> raise_for_status r \<Longrightarrow>
   enable_workflow net log owner repo w tok =
     (case enable_error_message r of
        Inl e \<Rightarrow> Inl e
      | Inr m \<Rightarrow> Inl (RuntimeError (''ERROR enabling repository '' @ repo @ '', workflow '' @ w
                                    @ '': '' @ m)),
      log @ [enable_request owner repo w tok])"
  by (simp add: enable_workflow_def send_def split: sum.splits)

text \<open>
  Claim C7, as amended. When the enable request is answered with a 4xx or 5xx status,
  \<^verbatim>\<open>enable_workflow\<close> raises a \<^verbatim>\<open>RuntimeError\<close> whose text ends with the
  \<^verbatim>\<open>message\<close> field of the body when the body is a JSON object with that field, with
  \<^verbatim>\<open>Error\<close> when it is a JSON object without the field, and, when the body is not
  JSON, with the raw text of the response, or its reason when the text is empty, or
  \<^verbatim>\<open>Error\<close> when both are empty.
\<close>

theorem enable_failure_message:
  "\<not> startswith w ''pages-build-deployment'' \<and> \<not> startswith w ''dependabot''
   \<and> net log (enable_request owner repo w tok) = Replied r
   \<and> 400 \<le> status_code r \<and> status_code r < 600 \<longrightarrow>
     (\<forall>members m. json_body r = Some (JObj members) \<and> map_of members ''message'' = Some m \<longrightarrow>
        fst (enable_workflow net log owner repo w tok) =
          Inl (RuntimeError (''ERROR enabling repository '' @ repo @ '', workflow '' @ w
                             @ '': '' @ py_str m)))
   \<and> (\<forall>members. json_body r = Some (JObj members) \<and> map_of members ''message'' = None \<longrightarrow>
        fst (enable_workflow net log owner repo w tok) =
          Inl (RuntimeError (''ERROR enabling repository '' @ repo @ '', workflow '' @ w
                             @ '': Error'')))
   \<and> (json_body r = None \<longrightarrow>
        fst (enable_workflow net log owner repo w tok) =
          Inl (RuntimeError (''ERROR enabling repository '' @ repo @ '', workflow '' @ w
                             @ '': ''
                             @ (if body_text r \<noteq> [] then body_text r
                                else if reason r \<noteq> [] then reason r else ''Error''))))"
proof (intro impI)
  assume a: "\<not> startswith w ''pages-build-deployment'' \<and> \<not> startswith w ''dependabot''
   \<and> net log (enable_request owner repo w tok) = Replied r
   \<and> 400 \<le> status_code r \<and> status_code r < 600"
  then have "raise_for_status r" by (simp add: raise_for_status_def)
  with a have e: "fst (enable_workflow net log owner repo w tok) =
     (case enable_error_message r of
        Inl e \<Rightarrow> Inl e
      | Inr m \<Rightarrow> Inl (RuntimeError (''ERROR enabling repository '' @ repo @ '', workflow '' @ w
                                    @ '': '' @ m)))"
    by (simp add: enable_workflow_raise)
  show "(\<forall>members m. json_body r = Some (JObj members) \<and> map_of members ''message'' = Some m \<longrightarrow>
        fst (enable_workflow net log owner repo w tok) =
          Inl (RuntimeError (''ERROR enabling repository '' @ repo @ '', workflow '' @ w
                             @ '': '' @ py_str m)))
   \<and> (\<forall>members. json_body r = Some (JObj members) \<and> map_of members ''message'' = None \<longrightarrow>
        fst (enable_workflow net log owner repo w tok) =
          Inl (RuntimeError (''ERROR enabling repository '' @ repo @ '', workflow '' @ w
                             @ '': Error'')))
   \<and> (json_body r = None \<longrightarrow>
        fst (enable_workflow net log owner repo w tok) =
          Inl (RuntimeError (''ERROR enabling repository '' @ repo @ '', workflow '' @ w
                             @ '': ''
                             @ (if body_text r \<noteq> [] then body_text r
                                else if reason r \<noteq> [] then reason r else ''Error''))))"
    unfolding e by (simp add: enable_error_message_def py_get_def py_str_def)
qed

theorem enable_failure_message_witness:
  "fst (enable_workflow (const_net not_found) [] ''bitranox'' ''lib_path'' ''python-package.yml''
          ''t'') =
     Inl (RuntimeError ''ERROR enabling repository lib_path, workflow python-package.yml: Not Found'')
 \<and> fst (enable_workflow (const_net forbidden) [] ''bitranox'' ''lib_path''
          ''python-package.yml'' ''t'') =
     Inl (RuntimeError ''ERROR enabling repository lib_path, workflow python-package.yml: Error'')
 \<and> fst (enable_workflow (const_net bad_gateway) [] ''bitranox'' ''lib_path''
          ''python-package.yml'' ''t'') =
     Inl (RuntimeError
            ''ERROR enabling repository lib_path, workflow python-package.yml: <html>502</html>'')"
proof -
  note t = enable_failure_message [where w = "''python-package.yml''" and log = "[]"
      and owner = "''bitranox''" and repo = "''lib_path''" and tok = "''t''"]
  have n: "\<not> startswith ''python-package.yml'' ''pages-build-deployment''"
    "\<not> startswith ''python-package.yml'' ''dependabot''"
    by (simp_all add: startswith_def)
  have "json_body not_found = Some (JObj [(''message'', JStr ''Not Found'')])
      \<and> map_of [(''message'', JStr ''Not Found'')] ''message'' = Some (JStr ''Not Found'')"
    by (simp add: not_found_def)
  with n t [where net = "const_net not_found" and r = not_found]
  have r1: "fst (enable_workflow (const_net not_found) [] ''bitranox'' ''lib_path''
          ''python-package.yml'' ''t'') =
     Inl (RuntimeError (''ERROR enabling repository '' @ ''lib_path'' @ '', workflow ''
            @ ''python-package.yml'' @ '': '' @ py_str (JStr ''Not Found'')))"
    by (simp add: const_net_def not_found_def)
  have "json_body forbidden =
        Some (JObj [(''documentation_url'', JStr ''https://docs.github.com/rest'')])
      \<and> map_of [(''documentation_url'', JStr ''https://docs.github.com/rest'')] ''message'' = None"
    by (simp add: forbidden_def)
  with n t [where net = "const_net forbidden" and r = forbidden]
  have r2: "fst (enable_workflow (const_net forbidden) [] ''bitranox'' ''lib_path''
          ''python-package.yml'' ''t'') =
     Inl (RuntimeError (''ERROR enabling repository '' @ ''lib_path'' @ '', workflow ''
            @ ''python-package.yml'' @ '': Error''))"
    by (simp add: const_net_def forbidden_def)
  from n t [where net = "const_net bad_gateway" and r = bad_gateway]
  have r3: "fst (enable_workflow (const_net bad_gateway) [] ''bitranox'' ''lib_path''
          ''python-package.yml'' ''t'') =
     Inl (RuntimeError (''ERROR enabling repository '' @ ''lib_path'' @ '', workflow ''
            @ ''python-package.yml'' @ '': '' @ ''<html>502</html>''))"
    by (simp add: const_net_def bad_gateway_def)
  show ?thesis unfolding r1 r2 r3 by (simp add: py_str_def)
qed

text \<open>
  The claim as stated, for every status outside 2xx, fails: a response with status
  304 is no failure for \<^verbatim>\<open>enable_workflow\<close>, which reports the workflow as enabled.
\<close>

theorem enable_failure_message_counterexample:
  "\<not> (200 \<le> status_code not_modified \<and> status_code not_modified < 300)
 \<and> const_net not_modified []
      (enable_request ''bitranox'' ''lib_path'' ''python-package.yml'' ''t'') =
     Replied not_modified
 \<and> enable_workflow (const_net not_modified) [] ''bitranox'' ''lib_path'' ''python-package.yml''
       ''t'' =
     (Inr ''Enabled repository lib_path, workflow python-package.yml'',
      [enable_request ''bitranox'' ''lib_path'' ''python-package.yml'' ''t''])"
  by code_simp

subsection \<open>Failures inside a sweep\<close>

lemma enable_workflows_loop_append:
  "enable_workflows_loop net log owner repo tok (ws1 @ ws2) =
     (case enable_workflows_loop net log owner repo tok ws1 of
        (Inl e, l) \<Rightarrow> (Inl e, l)
      | (Inr u, l) \<Rightarrow> enable_workflows_loop net l owner repo tok ws2)"
  by (induction ws1 arbitrary: log) (auto split: prod.splits sum.splits)

lemma enable_repositories_loop_append:
  "enable_repositories_loop net log owner tok (rs1 @ rs2) =
     (case enable_repositories_loop net log owner tok rs1 of
        None \<Rightarrow> None
      | Some (Inl e, l) \<Rightarrow> Some (Inl e, l)
      | Some (Inr u, l) \<Rightarrow> enable_repositories_loop net l owner tok rs2)"
  by (induction rs1 arbitrary: log) (auto split: prod.splits sum.splits option.splits)

lemma delete_runs_loop_append:
  "delete_runs_loop net log owner repo tok (ds1 @ ds2) =
     (case delete_runs_loop net log owner repo tok ds1 of
        (Inl e, l) \<Rightarrow> (Inl e, l)
      | (Inr u, l) \<Rightarrow> delete_runs_loop net l owner repo tok ds2)"
  by (induction ds1 arbitrary: log) (auto split: prod.splits sum.splits)

lemma delete_repositories_loop_append:
  "delete_repositories_loop net log owner tok keep (rs1 @ rs2) =
     (case delete_repositories_loop net log owner tok keep rs1 of
        None \<Rightarrow> None
      | Some (Inl e, l) \<Rightarrow> Some (Inl e, l)
      | Some (Inr u, l) \<Rightarrow> delete_repositories_loop net l owner tok keep rs2)"
  by (induction rs1 arbitrary: log) (auto split: prod.splits sum.splits option.splits)

text \<open>
  Claim C1, as amended. A failure of the action on one item is not isolated. When
  \<^verbatim>\<open>enable_workflow\<close> raises for a workflow, \<^verbatim>\<open>enable_all_workflows\<close> ends with
  that exception, and when \<^verbatim>\<open>delete_workflow_run\<close> raises for a run,
  \<^verbatim>\<open>delete_old_workflow_runs\<close> ends with that exception; the last request made is the
  one of the failing action, so no later workflow, run or repository is processed.
\<close>

theorem sweep_stops_at_failure:
  "(get_repositories net log owner tok = Some (Inr (rs1 @ r # rs2), log1)
    \<and> enable_repositories_loop net log1 owner tok rs1 = Some (Inr (), log2)
    \<and> get_workflows net log2 owner r tok = Some (Inr (ws1 @ w # ws2), log3)
    \<and> enable_workflows_loop net log3 owner r tok ws1 = (Inr (), log4)
    \<and> enable_workflow net log4 owner r w tok = (Inl e, log5) \<longrightarrow>
      enable_all_workflows net log owner tok = Some (Inl e, log5))
 \<and> (get_repositories net log owner tok = Some (Inr (rs1 @ r # rs2), log1)
    \<and> delete_repositories_loop net log1 owner tok keep rs1 = Some (Inr (), log2)
    \<and> get_workflow_runs net log2 owner r tok = Some (Inr ids, log3)
    \<and> workflow_run_ids_to_delete keep ids = Inr (ds1 @ d # ds2)
    \<and> delete_runs_loop net log3 owner r tok ds1 = (Inr (), log4)
    \<and> delete_workflow_run net log4 owner r tok d = (Inl e, log5) \<longrightarrow>
      delete_old_workflow_runs net log owner tok keep = Some (Inl e, log5))"
  by (simp add: enable_all_workflows_def delete_old_workflow_runs_def
      enable_repositories_loop_append enable_workflows_loop_append
      delete_repositories_loop_append delete_runs_loop_append)

theorem sweep_stops_at_failure_witness:
  "enable_all_workflows example_net [] ''bitranox'' ''t'' =
     Some (Inl (RuntimeError ''ERROR enabling repository lib_y, workflow broken.yml: Not Found''),
           [get_request (repositories_url ''bitranox'') (bearer_headers ''t''),
            get_request second_page_url (bearer_headers ''t''),
            get_request (workflows_url ''bitranox'' ''lib_x'') (bearer_headers ''t''),
            enable_request ''bitranox'' ''lib_x'' ''ci.yml'' ''t'',
            get_request (workflows_url ''bitranox'' ''lib_y'') (bearer_headers ''t''),
            enable_request ''bitranox'' ''lib_y'' ''broken.yml'' ''t''])
 \<and> delete_old_workflow_runs example_net [] ''bitranox'' ''t'' 2 =
     Some (Inl (RuntimeError
                  ''ERROR deleting workflow run ID: 2 for user: bitranox, repository: lib_x: Connection aborted.''),
           [get_request (repositories_url ''bitranox'') (bearer_headers ''t''),
            get_request second_page_url (bearer_headers ''t''),
            get_request (workflow_runs_url ''bitranox'' ''lib_x'') (bearer_headers ''t''),
            delete_request ''bitranox'' ''lib_x'' ''t'' (JInt 3),
            delete_request ''bitranox'' ''lib_x'' ''t'' (JInt 2)])"
proof -
  let ?g1 = "get_request (repositories_url ''bitranox'') (bearer_headers ''t'')"
  let ?g2 = "get_request second_page_url (bearer_headers ''t'')"
  let ?wx = "get_request (workflows_url ''bitranox'' ''lib_x'') (bearer_headers ''t'')"
  let ?wy = "get_request (workflows_url ''bitranox'' ''lib_y'') (bearer_headers ''t'')"
  let ?rx = "get_request (workflow_runs_url ''bitranox'' ''lib_x'') (bearer_headers ''t'')"
  let ?ci = "enable_request ''bitranox'' ''lib_x'' ''ci.yml'' ''t''"
  let ?br = "enable_request ''bitranox'' ''lib_y'' ''broken.yml'' ''t''"
  let ?d3 = "delete_request ''bitranox'' ''lib_x'' ''t'' (JInt 3)"
  let ?d2 = "delete_request ''bitranox'' ''lib_x'' ''t'' (JInt 2)"
  have h1: "get_repositories example_net [] ''bitranox'' ''t'' =
        Some (Inr ([''lib_x''] @ ''lib_y'' # []), [?g1, ?g2])
    \<and> enable_repositories_loop example_net [?g1, ?g2] ''bitranox'' ''t'' [''lib_x''] =
        Some (Inr (), [?g1, ?g2, ?wx, ?ci])
    \<and> get_workflows example_net [?g1, ?g2, ?wx, ?ci] ''bitranox'' ''lib_y'' ''t'' =
        Some (Inr ([] @ ''broken.yml'' # [''later.yml'']), [?g1, ?g2, ?wx, ?ci, ?wy])
    \<and> enable_workflows_loop example_net [?g1, ?g2, ?wx, ?ci, ?wy] ''bitranox'' ''lib_y'' ''t'' [] =
        (Inr (), [?g1, ?g2, ?wx, ?ci, ?wy])
    \<and> enable_workflow example_net [?g1, ?g2, ?wx, ?ci, ?wy] ''bitranox'' ''lib_y'' ''broken.yml''
          ''t'' =
        (Inl (RuntimeError ''ERROR enabling repository lib_y, workflow broken.yml: Not Found''),
         [?g1, ?g2, ?wx, ?ci, ?wy, ?br])"
    by code_simp
  have h2: "get_repositories example_net [] ''bitranox'' ''t'' =
        Some (Inr ([] @ ''lib_x'' # [''lib_y'']), [?g1, ?g2])
    \<and> delete_repositories_loop example_net [?g1, ?g2] ''bitranox'' ''t'' 2 [] =
        Some (Inr (), [?g1, ?g2])
    \<and> get_workflow_runs example_net [?g1, ?g2] ''bitranox'' ''lib_x'' ''t'' =
        Some (Inr [JInt 3, JInt 1, JInt 2, JInt 5, JInt 4], [?g1, ?g2, ?rx])
    \<and> workflow_run_ids_to_delete 2 [JInt 3, JInt 1, JInt 2, JInt 5, JInt 4] =
        Inr ([JInt 3] @ JInt 2 # [JInt 1])
    \<and> delete_runs_loop example_net [?g1, ?g2, ?rx] ''bitranox'' ''lib_x'' ''t'' [JInt 3] =
        (Inr (), [?g1, ?g2, ?rx, ?d3])
    \<and> delete_workflow_run example_net [?g1, ?g2, ?rx, ?d3] ''bitranox'' ''lib_x'' ''t'' (JInt 2) =
        (Inl (RuntimeError
                ''ERROR deleting workflow run ID: 2 for user: bitranox, repository: lib_x: Connection aborted.''),
         [?g1, ?g2, ?rx, ?d3, ?d2])"
    by code_simp
  note t = sweep_stops_at_failure [where net = example_net and log = "[]"
      and owner = "''bitranox''" and tok = "''t''" and ?log1.0 = "[?g1, ?g2]"]
  from h1 t [where ?rs1.0 = "[''lib_x'']" and r = "''lib_y''" and ?rs2.0 = "[]"
      and ?ws1.0 = "[]" and w = "''broken.yml''" and ?ws2.0 = "[''later.yml'']"
      and ?log2.0 = "[?g1, ?g2, ?wx, ?ci]" and ?log3.0 = "[?g1, ?g2, ?wx, ?ci, ?wy]"
      and ?log4.0 = "[?g1, ?g2, ?wx, ?ci, ?wy]"
      and ?log5.0 = "[?g1, ?g2, ?wx, ?ci, ?wy, ?br]"
      and e = "RuntimeError ''ERROR enabling repository lib_y, workflow broken.yml: Not Found''"]
  have r1: "enable_all_workflows example_net [] ''bitranox'' ''t'' =
     Some (Inl (RuntimeError ''ERROR enabling repository lib_y, workflow broken.yml: Not Found''),
           [?g1, ?g2, ?wx, ?ci, ?wy, ?br])"
    by blast
  from h2 t [where ?rs1.0 = "[]" and r = "''lib_x''" and ?rs2.0 = "[''lib_y'']" and keep = 2
      and ids = "[JInt 3, JInt 1, JInt 2, JInt 5, JInt 4]"
      and ?ds1.0 = "[JInt 3]" and d = "JInt 2" and ?ds2.0 = "[JInt 1]"
      and ?log2.0 = "[?g1, ?g2]" and ?log3.0 = "[?g1, ?g2, ?rx]"
      and ?log4.0 = "[?g1, ?g2, ?rx, ?d3]" and ?log5.0 = "[?g1, ?g2, ?rx, ?d3, ?d2]"
      and e = "RuntimeError
                ''ERROR deleting workflow run ID: 2 for user: bitranox, repository: lib_x: Connection aborted.''"]
  have r2: "delete_old_workflow_runs example_net [] ''bitranox'' ''t'' 2 =
     Some (Inl (RuntimeError
                  ''ERROR deleting workflow run ID: 2 for user: bitranox, repository: lib_x: Connection aborted.''),
           [?g1, ?g2, ?rx, ?d3, ?d2])"
    by blast
  from r1 r2 show ?thesis by blast
qed

text \<open>
  The claim as stated fails: on the example server the enable request for
  \<^verbatim>\<open>broken.yml\<close> is answered with 404, and the sweep ends there. The workflow
  \<^verbatim>\<open>later.yml\<close> of the same repository is listed and never enabled.
\<close>

theorem failure_isolation_counterexample:
  "get_workflows example_net [] ''bitranox'' ''lib_y'' ''t'' =
     Some (Inr [''broken.yml'', ''later.yml''],
           [get_request (workflows_url ''bitranox'' ''lib_y'') (bearer_headers ''t'')])
 \<and> enable_all_workflows example_net [] ''bitranox'' ''t'' =
     Some (Inl (RuntimeError ''ERROR enabling repository lib_y, workflow broken.yml: Not Found''),
           [get_request (repositories_url ''bitranox'') (bearer_headers ''t''),
            get_request second_page_url (bearer_headers ''t''),
            get_request (workflows_url ''bitranox'' ''lib_x'') (bearer_headers ''t''),
            enable_request ''bitranox'' ''lib_x'' ''ci.yml'' ''t'',
            get_request (workflows_url ''bitranox'' ''lib_y'') (bearer_headers ''t''),
            enable_request ''bitranox'' ''lib_y'' ''broken.yml'' ''t''])"
  by code_simp

subsection \<open>The runs to delete\<close>

lemma insort_key_JInt:
  "insort_key (\<lambda>v. - number_of v) (JInt x) (map JInt ys) = map JInt (insort_key uminus x ys)"
  by (induction ys) auto

lemma sort_key_JInt:
  "sort_key (\<lambda>v. - number_of v) (map JInt xs) = map JInt (sort_key uminus xs)"
  by (induction xs) (auto simp: insort_key_JInt)

lemma sort_key_uminus: "sort_key uminus (xs :: int list) = rev (sort xs)"
proof -
  have "sorted (map uminus (sort_key uminus xs))" by (rule sorted_sort_key)
  then have "sorted (rev (sort_key uminus xs))"
    by (simp add: sorted_map sorted_wrt_rev)
  moreover have "mset (rev (sort_key uminus xs)) = mset xs" by simp
  ultimately have "sort xs = rev (sort_key uminus xs)"
    by (intro properties_for_sort) auto
  then show ?thesis by simp
qed

lemma py_sorted_reverse_ints:
  "py_sorted_reverse (map JInt ids) = Inr (map JInt (rev (sort ids)))"
proof (cases "length ids \<le> 1")
  case True
  then consider "ids = []" | x where "ids = [x]"
    by (cases ids) (auto simp: Suc_le_eq)
  then show ?thesis by cases (simp_all add: py_sorted_reverse_def)
next
  case False
  moreover have "list_all is_number (map JInt ids)" by (simp add: list_all_iff)
  ultimately show ?thesis
    by (simp add: py_sorted_reverse_def sort_key_JInt sort_key_uminus)
qed

lemma ids_to_delete_keep:
  "0 \<le> keep \<Longrightarrow>
   workflow_run_ids_to_delete keep (map JInt ids) =
     Inr (map JInt (rev (take (length ids - nat keep) (sort ids))))"
  by (simp add: workflow_run_ids_to_delete_def py_sorted_reverse_ints py_slice_from_def
      drop_map drop_rev)




text \<open>The scenario of the specification: runs 1 to 73, of which 50 are kept.\<close>

lemma scenario_B:
  "workflow_run_ids_to_delete 50 (map JInt [1..73]) = Inr (map JInt (rev [1..23]))"
  by code_simp

lemma ids_to_delete_negative:
  "1 \<le> k \<Longrightarrow>
   workflow_run_ids_to_delete (- int k) (map JInt ids) =
     Inr (map JInt (rev (take (min k (length ids)) (sort ids))))"
proof -
  assume k: "1 \<le> k"
  have "length ids - nat (int (length ids) - int k) = min k (length ids)"
    by (cases "k \<le> length ids") (simp_all add: nat_diff_distrib')
  with k show ?thesis
    by (simp add: workflow_run_ids_to_delete_def py_sorted_reverse_ints py_slice_from_def
        drop_map drop_rev)
qed

text \<open>
  Claim C9, as amended. For a negative \<^verbatim>\<open>keep\<close> of \<^verbatim>\<open>-k\<close> with \<^verbatim>\<open>k\<close> at least 1,
  the runs targeted are the \<^verbatim>\<open>min(k, len(runs))\<close> smallest identifiers, in descending
  order; the cut raises nothing, and it targets no more runs than \<^verbatim>\<open>keep = 0\<close>
  does. When \<^verbatim>\<open>k\<close> is at least the number of runs, it targets the same runs as
  \<^verbatim>\<open>keep = 0\<close>: all of them.
\<close>

theorem negative_keep:
  "1 \<le> k \<longrightarrow>
     workflow_run_ids_to_delete (- int k) (map JInt ids) =
       Inr (map JInt (smallest_descending (min k (length ids)) ids))
   \<and> length (smallest_descending (min k (length ids)) ids) = min k (length ids)
   \<and> min k (length ids) \<le> length (smallest_descending (deletion_count 0 ids) ids)
   \<and> (length ids \<le> k \<longrightarrow>
         workflow_run_ids_to_delete (- int k) (map JInt ids) =
           workflow_run_ids_to_delete 0 (map JInt ids))"
proof (intro impI conjI)
  assume k: "1 \<le> k"
  then show "workflow_run_ids_to_delete (- int k) (map JInt ids) =
       Inr (map JInt (smallest_descending (min k (length ids)) ids))"
    by (simp add: ids_to_delete_negative smallest_descending_def)
  show "length (smallest_descending (min k (length ids)) ids) = min k (length ids)"
    by (simp add: smallest_descending_def)
  show "min k (length ids) \<le> length (smallest_descending (deletion_count 0 ids) ids)"
    by (simp add: smallest_descending_def deletion_count_def)
  show "workflow_run_ids_to_delete (- int k) (map JInt ids) =
           workflow_run_ids_to_delete 0 (map JInt ids)" if "length ids \<le> k"
    using that k by (simp add: ids_to_delete_negative ids_to_delete_keep)
qed

theorem negative_keep_witness:
  "workflow_run_ids_to_delete (- 2) [JInt 3, JInt 1, JInt 2, JInt 5, JInt 4] =
     Inr [JInt 2, JInt 1]
 \<and> workflow_run_ids_to_delete (- 7) [JInt 3, JInt 1, JInt 2, JInt 5, JInt 4] =
     workflow_run_ids_to_delete 0 [JInt 3, JInt 1, JInt 2, JInt 5, JInt 4]"
proof -
  have z: "(1::nat) \<le> 2" "(1::nat) \<le> 7" "length [3, 1, 2, 5, 4 :: int] \<le> 7" by simp_all
  have s: "smallest_descending (min 2 (length [3, 1, 2, 5, 4 :: int])) [3, 1, 2, 5, 4] = [2, 1]"
    by (simp add: smallest_descending_def)
  from negative_keep [where k = 2 and ids = "[3, 1, 2, 5, 4]"] z
  have r1: "workflow_run_ids_to_delete (- int 2) (map JInt [3, 1, 2, 5, 4]) =
       Inr (map JInt (smallest_descending (min 2 (length [3, 1, 2, 5, 4 :: int])) [3, 1, 2, 5, 4]))"
    by blast
  from negative_keep [where k = 7 and ids = "[3, 1, 2, 5, 4]"] z
  have r2: "workflow_run_ids_to_delete (- int 7) (map JInt [3, 1, 2, 5, 4]) =
           workflow_run_ids_to_delete 0 (map JInt [3, 1, 2, 5, 4])"
    by blast
  from r1 r2 show ?thesis unfolding s by simp
qed

text \<open>
  The claim as stated, that a negative \<^verbatim>\<open>keep\<close> never deletes all runs, fails: with
  three runs and \<^verbatim>\<open>keep = -3\<close> all three are targeted.
\<close>

theorem negative_keep_counterexample:
  "workflow_run_ids_to_delete (- 3) [JInt 1, JInt 2, JInt 3] = Inr [JInt 3, JInt 2, JInt 1]
 \<and> set [JInt 3, JInt 2, JInt 1] = set [JInt 1, JInt 2, JInt 3]"
  by code_simp

subsection \<open>Configuration lookup\<close>















end
